theory Spec2Isabelle
  imports Main "HOL-Library.Sublist"
begin

section \<open>File transfer between S3 and on-premises shares: a model of the Python sources\<close>

text \<open>
  The development embeds \<^verbatim>\<open>file_transfer.py\<close> (location classification, the four
  transfer executors, \<^verbatim>\<open>move_files\<close>) and \<^verbatim>\<open>handler.py\<close> (bootstrap script,
  \<^verbatim>\<open>create_EC2\<close>, \<^verbatim>\<open>lambda_handler\<close>) as HOL functions.

  Python strings are modelled as \<^typ>\<open>string\<close>, read as the UTF-8 bytes of the text: the
  substring test, \<^verbatim>\<open>split\<close> on ASCII separators and the ASCII-only character classes of
  the regular expression behave the same on code points and on UTF-8 bytes.
  A raised exception is a value \<open>Inl e\<close>; a returned value is \<open>Inr v\<close>.
\<close>

subsection \<open>Exceptions and Python values\<close>

text \<open>
  \<open>Exception\<close> is the bare \<^verbatim>\<open>raise Exception\<close> of the sources: it is what
  \<^verbatim>\<open>identify_location_type\<close> raises for a location it does not recognise (the
  specification's \<^verbatim>\<open>InvalidLocationError\<close>) and what \<^verbatim>\<open>_move_s3_to_s3\<close> raises when
  the move fails. \<open>External\<close> stands for any exception raised inside a library or a
  collaborator (base64, KMS, S3, SMB, EC2).
\<close>

datatype pyerror =
    Exception
  | IndexError
  | KeyError string
  | NameError string
  | TypeError
  | AttributeError string
  | External string

text \<open>The two strings \<^verbatim>\<open>'s3'\<close> and \<^verbatim>\<open>'on-prem'\<close> returned by the classifier.\<close>

datatype location_type = S3 | OnPrem

text \<open>
  The values that the executors and \<^verbatim>\<open>move_files\<close> return: \<^verbatim>\<open>None\<close>, \<^verbatim>\<open>True\<close>,
  \<^verbatim>\<open>False\<close> and the class object \<^verbatim>\<open>Exception\<close> itself (returned, not raised).
\<close>

datatype pyval = PyNone | PyTrue | PyFalse | PyExceptionClass

subsection \<open>String primitives\<close>

text \<open>\<^verbatim>\<open>sub in s\<close>: \<open>sub\<close> occurs in \<open>s\<close> as a contiguous substring.\<close>

fun str_contains :: "string \<Rightarrow> string \<Rightarrow> bool" where
  "str_contains sub [] = (sub = [])"
| "str_contains sub (x # xs) = (prefix sub (x # xs) \<or> str_contains sub xs)"

text \<open>
  \<^verbatim>\<open>s.split(sep)\<close> for a non-empty separator: the pieces between the leftmost,
  non-overlapping occurrences of \<open>sep\<close>. After a separator at the head of \<open>x # xs\<close> the
  scan resumes \<open>length sep\<close> characters further, that is at \<open>drop (length sep - 1) xs\<close>.
\<close>

function py_split :: "string \<Rightarrow> string \<Rightarrow> string list" where
  "py_split sep [] = [[]]"
| "py_split sep (x # xs) =
     (if prefix sep (x # xs) then [] # py_split sep (drop (length sep - 1) xs)
      else (case py_split sep xs of
              [] \<Rightarrow> [[x]]
            | p # ps \<Rightarrow> (x # p) # ps))"
  by pat_completeness auto
termination
  by (relation "measure (\<lambda>(sep, s). length s)") auto

text \<open>\<^verbatim>\<open>s.split(sep, maxsplit)\<close>: at most \<open>maxsplit\<close> cuts, the rest is the last piece.\<close>

function py_split_max :: "string \<Rightarrow> nat \<Rightarrow> string \<Rightarrow> string list" where
  "py_split_max sep 0 s = [s]"
| "py_split_max sep (Suc n) [] = [[]]"
| "py_split_max sep (Suc n) (x # xs) =
     (if prefix sep (x # xs) then [] # py_split_max sep n (drop (length sep - 1) xs)
      else (case py_split_max sep (Suc n) xs of
              [] \<Rightarrow> [[x]]
            | p # ps \<Rightarrow> (x # p) # ps))"
  by pat_completeness auto
termination
  by (relation "measure (\<lambda>(sep, n, s). length s)") auto

text \<open>\<^verbatim>\<open>xs[i]\<close> for \<open>i \<ge> 0\<close> and \<^verbatim>\<open>xs[-1]\<close>: out of range raises \<^verbatim>\<open>IndexError\<close>.\<close>

definition py_index :: "'a list \<Rightarrow> nat \<Rightarrow> pyerror + 'a" where
  "py_index xs i = (if i < length xs then Inr (xs ! i) else Inl IndexError)"

definition py_last :: "'a list \<Rightarrow> pyerror + 'a" where
  "py_last xs = (if xs = [] then Inl IndexError else Inr (last xs))"

subsection \<open>The regular expression of the classifier\<close>

text \<open>
  The constructs that the pattern of \<^verbatim>\<open>identify_location_type\<close> uses: a literal
  character, a range \<^verbatim>\<open>[a-b]\<close> (compared by code point), a class \<^verbatim>\<open>[01]\<close>,
  concatenation, alternation and \<^verbatim>\<open>?\<close>. \<open>rmatch r s\<close> lists, in the order a backtracking
  matcher tries them, the suffixes of \<open>s\<close> left after \<open>r\<close> has matched a prefix of \<open>s\<close>.
\<close>

datatype rexp =
    Eps
  | Lit char
  | Range char char
  | OneOf "char list"
  | Seq rexp rexp
  | Alt rexp rexp
  | Opt rexp

fun rmatch :: "rexp \<Rightarrow> string \<Rightarrow> string list" where
  "rmatch Eps s = [s]"
| "rmatch (Lit c) s = (case s of [] \<Rightarrow> [] | x # xs \<Rightarrow> if x = c then [xs] else [])"
| "rmatch (Range lo hi) s =
     (case s of
        [] \<Rightarrow> []
      | x # xs \<Rightarrow>
          if (of_char lo :: nat) \<le> of_char x \<and> (of_char x :: nat) \<le> of_char hi then [xs]
          else [])"
| "rmatch (OneOf cs) s = (case s of [] \<Rightarrow> [] | x # xs \<Rightarrow> if x \<in> set cs then [xs] else [])"
| "rmatch (Seq r1 r2) s = concat (map (rmatch r2) (rmatch r1 s))"
| "rmatch (Alt r1 r2) s = rmatch r1 s @ rmatch r2 s"
| "rmatch (Opt r) s = rmatch r s @ [s]"

text \<open>\<^verbatim>\<open>r{n}\<close>: \<open>n\<close> copies of \<open>r\<close> in sequence.\<close>

fun repeat_re :: "nat \<Rightarrow> rexp \<Rightarrow> rexp" where
  "repeat_re 0 r = Eps"
| "repeat_re (Suc n) r = Seq r (repeat_re n r)"

text \<open>
  \<^verbatim>\<open>re.search('^' r '$', s) != None\<close>. Without the MULTILINE flag \<^verbatim>\<open>^\<close> matches only at
  the start of \<open>s\<close>, so the search succeeds exactly when a match starts at position 0.
  \<^verbatim>\<open>$\<close> matches at the end of the string and also just before a newline that is the last
  character of the string.
\<close>

definition re_search_anchored :: "rexp \<Rightarrow> string \<Rightarrow> bool" where
  "re_search_anchored r s = list_ex (\<lambda>rest. rest = [] \<or> rest = [CHR 0x0A]) (rmatch r s)"

text \<open>\<^verbatim>\<open>(25[0-5]|2[0-4][0-9]|[01]?[0-9][0-9]?)\<close>\<close>

definition octet_re :: rexp where
  "octet_re =
     Alt (Seq (Lit CHR ''2'') (Seq (Lit CHR ''5'') (Range CHR ''0'' CHR ''5'')))
    (Alt (Seq (Lit CHR ''2'') (Seq (Range CHR ''0'' CHR ''4'') (Range CHR ''0'' CHR ''9'')))
         (Seq (Opt (OneOf ''01''))
            (Seq (Range CHR ''0'' CHR ''9'') (Opt (Range CHR ''0'' CHR ''9'')))))"

text \<open>\<^verbatim>\<open>(octet\.){3}octet\<close>\<close>

definition ip_re :: rexp where
  "ip_re = Seq (repeat_re 3 (Seq octet_re (Lit CHR ''.''))) octet_re"

text \<open>The set of strings a pattern matches in full; used in the proofs only.\<close>

fun lang :: "rexp \<Rightarrow> string set" where
  "lang Eps = {[]}"
| "lang (Lit c) = {[c]}"
| "lang (Range lo hi) =
     {[x] | x. (of_char lo :: nat) \<le> of_char x \<and> (of_char x :: nat) \<le> of_char hi}"
| "lang (OneOf cs) = {[x] | x. x \<in> set cs}"
| "lang (Seq r1 r2) = {u @ v | u v. u \<in> lang r1 \<and> v \<in> lang r2}"
| "lang (Alt r1 r2) = lang r1 \<union> lang r2"
| "lang (Opt r) = insert [] (lang r)"

subsection \<open>\<^verbatim>\<open>identify_location_type\<close>\<close>

text \<open>
  The source tests \<^verbatim>\<open>'s3://' in directory\<close> first. Otherwise the first piece of
  \<^verbatim>\<open>directory.split("/")\<close> must match the IPv4 pattern; then piece 1 is read inside
  \<^verbatim>\<open>try\<close>, and the bare \<^verbatim>\<open>except\<close> turns the \<^verbatim>\<open>IndexError\<close> into \<^verbatim>\<open>raise Exception\<close>.
  Everything else ends in the final \<^verbatim>\<open>raise Exception\<close>.
\<close>

definition identify_location_type :: "string \<Rightarrow> pyerror + location_type" where
  "identify_location_type directory =
     (if str_contains ''s3://'' directory then Inr S3
      else (case py_index (py_split ''/'' directory) 0 of
              Inl e \<Rightarrow> Inl e
            | Inr rootURL \<Rightarrow>
                if re_search_anchored ip_re rootURL then
                  (case py_index (py_split ''/'' directory) 1 of
                     Inl e \<Rightarrow> Inl Exception
                   | Inr subURL \<Rightarrow> Inr OnPrem)
                else Inl Exception))"

subsection \<open>What the specification calls a valid IPv4 root\<close>

text \<open>
  These definitions follow the words of the specification, not the code: a dotted-decimal
  IPv4 address is four fields separated by dots, each field one to three decimal digits
  with a value of at most 255. The first segment of a location is the text before its
  first \<^verbatim>\<open>/\<close>. The second segment, the share root of the specification, is the text
  between the first \<^verbatim>\<open>/\<close> and the next one (or the end); a location has a further
  segment when its share root is not empty, and it is a bare root when it contains no
  \<^verbatim>\<open>/\<close> at all. A root followed by \<^verbatim>\<open>/\<close> and an empty share root is neither.
\<close>

definition is_digit :: "char \<Rightarrow> bool" where
  "is_digit c \<longleftrightarrow> (48::nat) \<le> of_char c \<and> (of_char c :: nat) \<le> 57"

definition decimal_value :: "string \<Rightarrow> nat" where
  "decimal_value m = foldl (\<lambda>n c. 10 * n + (of_char c - 48)) 0 m"

definition is_octet :: "string \<Rightarrow> bool" where
  "is_octet m \<longleftrightarrow>
     m \<noteq> [] \<and> length m \<le> 3 \<and> list_all is_digit m \<and> decimal_value m \<le> 255"

definition valid_ipv4 :: "string \<Rightarrow> bool" where
  "valid_ipv4 s =
     (case py_split ''.'' s of
        [a, b, c, d] \<Rightarrow> is_octet a \<and> is_octet b \<and> is_octet c \<and> is_octet d
      | _ \<Rightarrow> False)"

definition first_segment :: "string \<Rightarrow> string" where
  "first_segment s = takeWhile (\<lambda>c. c \<noteq> CHR ''/'') s"

definition share_root :: "string \<Rightarrow> string" where
  "share_root s =
     takeWhile (\<lambda>c. c \<noteq> CHR ''/'') (drop 1 (dropWhile (\<lambda>c. c \<noteq> CHR ''/'') s))"

definition has_further_segment :: "string \<Rightarrow> bool" where
  "has_further_segment s \<longleftrightarrow> share_root s \<noteq> []"

definition is_bare_root :: "string \<Rightarrow> bool" where
  "is_bare_root s \<longleftrightarrow> CHR ''/'' \<notin> set s"

subsection \<open>Collaborators and effects\<close>

text \<open>The keyword arguments of \<^verbatim>\<open>ec2.run_instances\<close> in \<^verbatim>\<open>create_EC2\<close>.\<close>

record run_request =
  ImageId :: string
  IamInstanceProfile :: string
  InstanceInitiatedShutdownBehavior :: string
  MinCount :: nat
  MaxCount :: nat
  KeyName :: string
  InstanceType :: string
  SecurityGroupIds :: "string list"
  SubnetId :: string
  UserData :: string
  Tags :: "(string \<times> string) list"

text \<open>
  Every call that leaves the process is recorded: a run of a function yields its outcome
  and the list of external calls it made, in order.
\<close>

datatype call =
    KMS_decrypt string
  | S3_client
  | SMB_connect string string string nat
  | SMB_retrieveFile string string
  | S3_upload_fileobj string string string
  | EC2_run_instances run_request

text \<open>
  The answers of the library and of the collaborators. \<open>b64decode\<close> is
  \<^verbatim>\<open>base64.b64decode\<close>: the decoded bytes, or the exception raised on malformed input.
  \<open>kms_decrypt blob\<close> is
  \<^verbatim>\<open>boto3.client('kms').decrypt(CiphertextBlob=blob)['Plaintext'].decode('utf-8')\<close>;
  \<open>s3_client\<close> is \<^verbatim>\<open>boto3.client('s3')\<close>; \<open>smb_connect username password server_ip port\<close>
  is \<^verbatim>\<open>SMBConnection(...).connect(server_ip, port)\<close>; \<open>smb_retrieveFile\<close> gives the bytes
  written to the buffer and the exception raised, if any; \<open>ec2_run_instances\<close> gives
  \<^verbatim>\<open>ec2_response['Instances'][0]['InstanceId']\<close>; \<open>now\<close> is \<^verbatim>\<open>str(datetime.now())\<close>.
\<close>

record world =
  b64decode :: "string \<Rightarrow> pyerror + string"
  kms_decrypt :: "string \<Rightarrow> pyerror + string"
  s3_client :: "pyerror + unit"
  smb_connect :: "string \<Rightarrow> string \<Rightarrow> string \<Rightarrow> nat \<Rightarrow> pyerror + pyval"
  smb_retrieveFile :: "string \<Rightarrow> string \<Rightarrow> string \<times> pyerror option"
  s3_upload_fileobj :: "string \<Rightarrow> string \<Rightarrow> string \<Rightarrow> pyerror + unit"
  ec2_run_instances :: "run_request \<Rightarrow> pyerror + string"
  now :: string

type_synonym 'a io = "(pyerror + 'a) \<times> call list"

type_synonym environ = "string \<rightharpoonup> string"

definition ret :: "'a \<Rightarrow> 'a io" where
  "ret x = (Inr x, [])"

definition raise :: "pyerror \<Rightarrow> 'a io" where
  "raise e = (Inl e, [])"

text \<open>Sequencing: an exception in the first part skips the second.\<close>

definition bind :: "'a io \<Rightarrow> ('a \<Rightarrow> 'b io) \<Rightarrow> 'b io" where
  "bind m f =
     (case m of
        (Inl e, tr) \<Rightarrow> (Inl e, tr)
      | (Inr x, tr) \<Rightarrow> (case f x of (r, tr') \<Rightarrow> (r, tr @ tr')))"

text \<open>\<^verbatim>\<open>try: m  except Exception as e: handler\<close>\<close>

definition try_except :: "'a io \<Rightarrow> (pyerror \<Rightarrow> 'a io) \<Rightarrow> 'a io" where
  "try_except m handler =
     (case m of
        (Inl e, tr) \<Rightarrow> (case handler e of (r, tr') \<Rightarrow> (r, tr @ tr'))
      | (Inr x, tr) \<Rightarrow> (Inr x, tr))"

definition perform :: "call \<Rightarrow> pyerror + 'a \<Rightarrow> 'a io" where
  "perform c outcome = (outcome, [c])"

definition lift :: "pyerror + 'a \<Rightarrow> 'a io" where
  "lift r = (r, [])"

text \<open>\<^verbatim>\<open>d[k]\<close> on a dictionary, and so \<^verbatim>\<open>os.environ[k]\<close> and \<^verbatim>\<open>event[k]\<close>.\<close>

definition dict_get :: "(string \<rightharpoonup> 'a) \<Rightarrow> string \<Rightarrow> 'a io" where
  "dict_get d k = (case d k of None \<Rightarrow> raise (KeyError k) | Some v \<Rightarrow> ret v)"

subsection \<open>\<^verbatim>\<open>file_transfer.py\<close>: credentials and executors\<close>

text \<open>
  Each of the two lines is
  \<^verbatim>\<open>boto3.client('kms').decrypt(CiphertextBlob=b64decode(x))['Plaintext'].decode('utf-8')\<close>:
  the argument is decoded first, and a malformed argument raises before any request is
  sent; the request carries the decoded blob. The username comes first.
\<close>

definition decrypt_KMS_credentials ::
  "world \<Rightarrow> string \<Rightarrow> string \<Rightarrow> (string \<times> string) io" where
  "decrypt_KMS_credentials w username password =
     bind (lift (b64decode w username)) (\<lambda>username_blob.
     bind (perform (KMS_decrypt username_blob) (kms_decrypt w username_blob)) (\<lambda>username'.
     bind (lift (b64decode w password)) (\<lambda>password_blob.
     bind (perform (KMS_decrypt password_blob) (kms_decrypt w password_blob)) (\<lambda>password'.
     ret (username', password')))))"

text \<open>
  The module variable \<^verbatim>\<open>s3\<close> is \<^verbatim>\<open>boto3.client('s3')\<close> (the \<^verbatim>\<open>s3fs\<close> filesystem of the
  line above it is commented out), and a boto3 client has no attribute \<^verbatim>\<open>mv\<close>: inside
  the \<^verbatim>\<open>try\<close>, the lookup of \<^verbatim>\<open>s3.mv\<close> raises \<^verbatim>\<open>AttributeError\<close> before anything is
  sent, and the \<^verbatim>\<open>except\<close> turns it into \<^verbatim>\<open>raise Exception\<close>. The two bucket paths are
  computed before the \<^verbatim>\<open>try\<close>.
\<close>

definition move_s3_to_s3 :: "world \<Rightarrow> string \<Rightarrow> string \<Rightarrow> pyval io" where
  "move_s3_to_s3 w source_location target_location =
     bind (lift (py_index (py_split ''s3://'' source_location) 1)) (\<lambda>s3_source_directory.
     bind (lift (py_index (py_split ''s3://'' target_location) 1)) (\<lambda>s3_target_directory.
     bind (try_except (raise (AttributeError ''mv'')) (\<lambda>e. raise Exception)) (\<lambda>_ :: unit.
     ret PyTrue)))"

text \<open>The body is a debug log line and \<^verbatim>\<open>return Exception\<close>.\<close>

definition move_on_prem_to_on_prem :: "string \<Rightarrow> string \<Rightarrow> pyval io" where
  "move_on_prem_to_on_prem source_location target_location = ret PyExceptionClass"

text \<open>
  In the order of the source: the two environment reads and the decryption; the four
  pieces of the source location and the bucket of the target (each index may raise
  \<^verbatim>\<open>IndexError\<close>); \<^verbatim>\<open>boto3.client('s3')\<close> inside \<^verbatim>\<open>try\<close>, whose \<^verbatim>\<open>except\<close> returns
  \<^verbatim>\<open>False\<close>; the SMB connection, with \<^verbatim>\<open>False\<close> returned unless the response is \<^verbatim>\<open>True\<close>;
  then retrieval and upload, each inside its own \<^verbatim>\<open>try\<close> whose \<^verbatim>\<open>except\<close> only logs;
  then \<^verbatim>\<open>return True\<close>.
\<close>

definition move_on_prem_to_s3 :: "world \<Rightarrow> environ \<Rightarrow> string \<Rightarrow> string \<Rightarrow> pyval io" where
  "move_on_prem_to_s3 w env source_location target_location =
     bind (dict_get env ''AD_username'') (\<lambda>enc_username.
     bind (dict_get env ''AD_key'') (\<lambda>enc_password.
     bind (decrypt_KMS_credentials w enc_username enc_password) (\<lambda>(username, password).
     bind (lift (py_index (py_split_max ''/'' 2 source_location) 0)) (\<lambda>server_ip.
     bind (lift (py_index (py_split_max ''/'' 2 source_location) 1)) (\<lambda>root_folder.
     bind (lift (py_index (py_split_max ''/'' 2 source_location) 2)) (\<lambda>file_dir.
     bind (lift (py_last (py_split ''/'' source_location))) (\<lambda>filename.
     bind (lift (py_index (py_split ''s3://'' target_location) 1)) (\<lambda>s3_bucket.
     bind (try_except (bind (perform S3_client (s3_client w)) (\<lambda>_. ret True))
             (\<lambda>e. ret False)) (\<lambda>connected_to_s3.
     if \<not> connected_to_s3 then ret PyFalse
     else
       bind (perform (SMB_connect username password server_ip 445)
               (smb_connect w username password server_ip 445)) (\<lambda>response.
       if response = PyFalse then ret PyFalse
       else if response = PyTrue then
         (case smb_retrieveFile w root_folder file_dir of
            (buffer, failure) \<Rightarrow>
              bind (try_except
                      (perform (SMB_retrieveFile root_folder file_dir)
                         (case failure of None \<Rightarrow> Inr () | Some e \<Rightarrow> Inl e))
                      (\<lambda>e. ret ())) (\<lambda>_.
              bind (try_except
                      (perform (S3_upload_fileobj buffer s3_bucket filename)
                         (s3_upload_fileobj w buffer s3_bucket filename))
                      (\<lambda>e. ret ())) (\<lambda>_.
              ret PyTrue)))
       else ret PyFalse))))))))))"

text \<open>The body is a debug log line and \<^verbatim>\<open>return Exception\<close>.\<close>

definition move_s3_to_on_prem :: "string \<Rightarrow> string \<Rightarrow> pyval io" where
  "move_s3_to_on_prem source_location target_location = ret PyExceptionClass"

subsection \<open>\<^verbatim>\<open>move_files\<close>\<close>

text \<open>
  Both locations are classified first. Then comes the \<^verbatim>\<open>if\<close>/\<^verbatim>\<open>elif\<close> chain, in the
  order of the source and with its four calls; the chain has no \<^verbatim>\<open>else\<close>, so when no
  condition holds nothing is called. The value of the executor that runs is dropped, and
  the function ends without \<^verbatim>\<open>return\<close>, that is with \<^verbatim>\<open>None\<close>.
\<close>

definition move_files :: "world \<Rightarrow> environ \<Rightarrow> string \<Rightarrow> string \<Rightarrow> pyval io" where
  "move_files w env source_location target_location =
     bind (lift (identify_location_type source_location)) (\<lambda>source_type.
     bind (lift (identify_location_type target_location)) (\<lambda>target_type.
     bind (if source_type = S3 \<and> target_type = S3 then
             move_s3_to_s3 w source_location target_location
           else if source_type = S3 \<and> target_type = OnPrem then
             move_s3_to_on_prem source_location target_location
           else if source_type = OnPrem \<and> target_type = OnPrem then
             move_on_prem_to_on_prem source_location target_location
           else if source_type = OnPrem \<and> target_type = S3 then
             move_on_prem_to_s3 w env source_location target_location
           else ret PyNone) (\<lambda>_.
     ret PyNone)))"

subsection \<open>\<^verbatim>\<open>handler.py\<close>: bootstrap script\<close>

text \<open>
  The names bound at module level in \<^verbatim>\<open>handler.py\<close> when a function of the module runs:
  its imports, its three module variables and its three functions.
  \<^verbatim>\<open>decrypt_KMS_credentials\<close> is defined in \<^verbatim>\<open>file_transfer.py\<close> and is reachable as
  \<^verbatim>\<open>file_transfer.decrypt_KMS_credentials\<close> only; it is neither a name of this module nor a
  builtin.
\<close>

datatype pyobj = PyModule | PyFunction | PyClass | PyInstance

definition handler_globals :: "(string \<times> pyobj) list" where
  "handler_globals =
     [(''boto3'', PyModule), (''os'', PyModule), (''datetime'', PyClass),
      (''logging'', PyModule), (''b64decode'', PyFunction), (''file_transfer'', PyModule),
      (''region'', PyInstance), (''ec2'', PyInstance), (''logger'', PyInstance),
      (''create_s3_onprem_bootstrap_script'', PyFunction), (''create_EC2'', PyFunction),
      (''lambda_handler'', PyFunction)]"

definition load_global :: "string \<Rightarrow> pyobj io" where
  "load_global name =
     (case map_of handler_globals name of
        None \<Rightarrow> raise (NameError name)
      | Some obj \<Rightarrow> ret obj)"

text \<open>
  \<^verbatim>\<open>obj[a, b]\<close>: none of the objects bound in the module (modules, functions, the
  \<^verbatim>\<open>datetime\<close> class, a string, a client, a logger) can be subscripted with a pair.
\<close>

definition subscript :: "pyobj \<Rightarrow> string \<times> string \<Rightarrow> (string \<times> string) io" where
  "subscript obj key = raise TypeError"

text \<open>The f-string of \<^verbatim>\<open>create_s3_onprem_bootstrap_script\<close>, character for character.\<close>

definition bash_bootstrap_script ::
  "string \<Rightarrow> string \<Rightarrow> string \<Rightarrow> string \<Rightarrow> string \<Rightarrow> string" where
  \<open>bash_bootstrap_script username password source_location target_location python_handler =
     ''\<newline>'' @
     ''    #!/bin/bash \<newline>'' @
     ''    sudo su;\<newline>'' @
     ''    \<newline>'' @
     ''    # Create mounted directory\<newline>'' @
     ''    mounted_directory=/mnt/drive;\<newline>'' @
     ''    mkdir $mounted_directory;\<newline>'' @
     ''    cd $mounted_directory;\<newline>'' @
     ''    echo "//'' @
     target_location @
     ''  $mounted_directory  cifs  username='' @
     username @
     '',password='' @
     password @
     '',dir_mode=0777,file_mode=0777,noperm  0  0" >> /etc/fstab;\<newline>'' @
     ''    mount -a;\<newline>'' @
     ''    \<newline>'' @
     ''    #Update to Python3\<newline>'' @
     ''    yum install python36 -y;\<newline>'' @
     ''    pip install -r requirements.txt;\<newline>'' @
     ''\<newline>'' @
     ''    #Create log file\<newline>'' @
     ''    mkdir /log;\<newline>'' @
     ''    filename=`date "+%Y%m%d-%H%M"`_log.out;\<newline>'' @
     ''    echo `date` > /log/$filename;\<newline>'' @
     ''    \<newline>'' @
     ''    #Execute file transfer\<newline>'' @
     ''    #python3 '' @
     python_handler @
     '' --source '' @
     source_location @
     '' --target $mounted_directory > /log/$filename;\<newline>'' @
     ''    aws s3 cp /log/$filename s3://bucket-test/ec2-log/;\<newline>'' @
     ''    \<newline>'' @
     ''    #Self-terminate\<newline>'' @
     ''    shutdown -h now;\<newline>'' @
     ''    ''\<close>

text \<open>
  The first statement is
  \<^verbatim>\<open>decrypt_KMS_credentials[os.environ['AD_username'], os.environ['AD_key']]\<close>: the name is
  looked up, then the two environment reads are evaluated, then the object is subscripted
  (square brackets, not a call) and the result unpacked into \<open>username\<close> and \<open>password\<close>.
\<close>

definition create_s3_onprem_bootstrap_script ::
  "environ \<Rightarrow> string \<Rightarrow> string \<Rightarrow> string \<Rightarrow> string io" where
  "create_s3_onprem_bootstrap_script env source_location target_location python_handler =
     bind (load_global ''decrypt_KMS_credentials'') (\<lambda>obj.
     bind (dict_get env ''AD_username'') (\<lambda>enc_username.
     bind (dict_get env ''AD_key'') (\<lambda>enc_password.
     bind (subscript obj (enc_username, enc_password)) (\<lambda>(username, password).
     ret (bash_bootstrap_script username password source_location target_location
            python_handler)))))"

subsection \<open>\<^verbatim>\<open>handler.py\<close>: \<^verbatim>\<open>create_EC2\<close> and \<^verbatim>\<open>lambda_handler\<close>\<close>

definition run_instances_request ::
  "world \<Rightarrow> string \<Rightarrow> string \<Rightarrow> string \<Rightarrow> string \<Rightarrow> string \<Rightarrow> run_request" where
  "run_instances_request w key_name instance_type security_group subnet userdata =
     \<lparr>ImageId = ''ami-07cc15c3ba6f8e287'',
      IamInstanceProfile = ''nonprod-dataanalytics-filescheduler-ec2'',
      InstanceInitiatedShutdownBehavior = ''terminate'',
      MinCount = 1,
      MaxCount = 1,
      KeyName = key_name,
      InstanceType = instance_type,
      SecurityGroupIds = [security_group],
      SubnetId = subnet,
      UserData = userdata,
      Tags = [(''Name'', ''nonprod-dataanalytics-filescheduler-ec2-'' @ now w),
              (''squad'', ''ninja''),
              (''platform'', ''dataanalytics'')]\<rparr>"

text \<open>
  The body of \<^verbatim>\<open>create_EC2\<close>, with the function that it calls for the script as the
  parameter \<open>make_script\<close>. The script is built first; the four environment reads happen
  while the arguments of \<^verbatim>\<open>run_instances\<close> are evaluated, in the order they are written.
  There is no \<^verbatim>\<open>try\<close> in the function.
\<close>

definition create_EC2_with ::
  "(string \<Rightarrow> string \<Rightarrow> string \<Rightarrow> string io) \<Rightarrow>
     world \<Rightarrow> environ \<Rightarrow> string \<Rightarrow> string \<Rightarrow> string \<Rightarrow> string io" where
  "create_EC2_with make_script w env source_location target_location python_handler =
     bind (make_script source_location target_location python_handler) (\<lambda>userdata.
     bind (dict_get env ''EC2_PEM_KEY'') (\<lambda>key_name.
     bind (dict_get env ''EC2_INSTANCE_TYPE'') (\<lambda>instance_type.
     bind (dict_get env ''SECURITY_GROUP'') (\<lambda>security_group.
     bind (dict_get env ''VPC_SUBNET'') (\<lambda>subnet.
     bind (perform
             (EC2_run_instances
                (run_instances_request w key_name instance_type security_group subnet
                   userdata))
             (ec2_run_instances w
                (run_instances_request w key_name instance_type security_group subnet
                   userdata))) (\<lambda>ec2_id.
     ret ec2_id))))))"

text \<open>\<^verbatim>\<open>create_EC2\<close> itself: the script comes from \<^verbatim>\<open>create_s3_onprem_bootstrap_script\<close>.\<close>

definition create_EC2 :: "world \<Rightarrow> environ \<Rightarrow> string \<Rightarrow> string \<Rightarrow> string \<Rightarrow> string io" where
  "create_EC2 w env =
     create_EC2_with (create_s3_onprem_bootstrap_script env) w env"

record response =
  statusCode :: int
  body :: string

text \<open>
  The body of \<^verbatim>\<open>lambda_handler\<close>, with the function that it calls for the remote
  transfer as the parameter \<open>create\<close>. The target is classified before the source;
  \<^verbatim>\<open>os.environ['PYTHON_HANDLER']\<close> is read before the branch. \<open>message\<close> starts empty; the
  first branch appends to it, the second replaces it, and when neither is taken it stays
  empty. There is no \<^verbatim>\<open>try\<close> in the function.
\<close>

definition lambda_handler_with ::
  "(string \<Rightarrow> string \<Rightarrow> string \<Rightarrow> string io) \<Rightarrow>
     environ \<Rightarrow> (string \<rightharpoonup> string) \<Rightarrow> response io" where
  "lambda_handler_with create env event =
     bind (dict_get event ''target_location'') (\<lambda>target_location.
     bind (lift (identify_location_type target_location)) (\<lambda>target_type.
     bind (dict_get event ''source_location'') (\<lambda>source_location.
     bind (lift (identify_location_type source_location)) (\<lambda>source_type.
     bind (dict_get env ''PYTHON_HANDLER'') (\<lambda>python_handler.
     bind (if source_type = S3 \<and> target_type = S3 then
             ret ('''' @ ''AWS transfer only - not required.'')
           else if source_type = OnPrem \<or> target_type = OnPrem then
             bind (create source_location target_location python_handler)
               (\<lambda>ec2_id. ret (''EC2 file transfer spun up. instance id is '' @ ec2_id))
           else ret '''') (\<lambda>message.
     ret \<lparr>statusCode = 200, body = ''File transfer started. '' @ message\<rparr>))))))"

text \<open>\<^verbatim>\<open>lambda_handler\<close> itself: the remote transfer is started by \<^verbatim>\<open>create_EC2\<close>.\<close>

definition lambda_handler :: "world \<Rightarrow> environ \<Rightarrow> (string \<rightharpoonup> string) \<Rightarrow> response io" where
  "lambda_handler w env event = lambda_handler_with (create_EC2 w env) env event"

subsection \<open>Concrete inputs\<close>

text \<open>
  A configured environment and an empty one; collaborators that all succeed, and variants
  in which one collaborator fails. The two ciphertexts are base64 text, and \<open>username_blob\<close>
  and \<open>password_blob\<close> are the bytes they decode to. \<open>main_event\<close> is the event of the
  \<^verbatim>\<open>__main__\<close> block of \<^verbatim>\<open>handler.py\<close>. \<open>template_script\<close> returns the text that the
  f-string gives for the two plaintext credentials of \<open>working_world\<close>.
\<close>

definition configured_environ :: environ where
  "configured_environ =
     [''AD_username'' \<mapsto> ''AQICAHh1c2Vy'',
      ''AD_key'' \<mapsto> ''AQICAHhrZXk='',
      ''PYTHON_HANDLER'' \<mapsto> ''file_transfer.py'',
      ''EC2_PEM_KEY'' \<mapsto> ''filescheduler-key'',
      ''EC2_INSTANCE_TYPE'' \<mapsto> ''t2.micro'',
      ''SECURITY_GROUP'' \<mapsto> ''sg-0a1b2c3d'',
      ''VPC_SUBNET'' \<mapsto> ''subnet-0a1b2c3d'']"


definition username_blob :: string where
  "username_blob = CHR 0x01 # CHR 0x02 # CHR 0x02 # CHR 0x00 # ''xuser''"

definition password_blob :: string where
  "password_blob = CHR 0x01 # CHR 0x02 # CHR 0x02 # CHR 0x00 # ''xkey''"

definition working_world :: world where
  "working_world =
     \<lparr>b64decode =
        (\<lambda>c. if c = ''AQICAHh1c2Vy'' then Inr username_blob
             else if c = ''AQICAHhrZXk='' then Inr password_blob
             else Inl (External ''binascii.Error'')),
      kms_decrypt =
        (\<lambda>blob. if blob = username_blob then Inr ''svc_transfer''
             else if blob = password_blob then Inr ''hunter2''
             else Inl (External ''InvalidCiphertextException'')),
      s3_client = Inr (),
      smb_connect = (\<lambda>username password server_ip port. Inr PyTrue),
      smb_retrieveFile = (\<lambda>share path. (''a,b\<newline>1,2\<newline>'', None)),
      s3_upload_fileobj = (\<lambda>buffer bucket key. Inr ()),
      ec2_run_instances = (\<lambda>request. Inr ''i-0123456789abcdef0''),
      now = ''2020-03-01 09:30:00.000000''\<rparr>"

definition retrieval_fails_world :: world where
  "retrieval_fails_world =
     working_world
       \<lparr>smb_retrieveFile := (\<lambda>share path. ('''', Some (External ''OperationFailure'')))\<rparr>"

definition upload_fails_world :: world where
  "upload_fails_world =
     working_world
       \<lparr>s3_upload_fileobj := (\<lambda>buffer bucket key. Inl (External ''ClientError''))\<rparr>"



definition main_event :: "string \<rightharpoonup> string" where
  "main_event =
     [''source_location'' \<mapsto> ''s3://bucket-test'',
      ''target_location'' \<mapsto> ''10.10.10.100/Matillion_Output'']"

definition store_to_store_event :: "string \<rightharpoonup> string" where
  "store_to_store_event =
     [''source_location'' \<mapsto> ''s3://bucket-test/hello.csv'',
      ''target_location'' \<mapsto> ''s3://bucket-archive/hello.csv'']"


section \<open>Properties of the string primitives\<close>

lemma str_contains_iff: "str_contains sub s \<longleftrightarrow> (\<exists>u v. s = u @ sub @ v)"
proof (induction s)
  case Nil
  then show ?case by auto
next
  case (Cons x xs)
  show ?case
  proof
    assume "str_contains sub (x # xs)"
    then consider "prefix sub (x # xs)" | "str_contains sub xs" by auto
    then show "\<exists>u v. x # xs = u @ sub @ v"
    proof cases
      case 1
      then obtain v where "x # xs = sub @ v" by (auto simp: prefix_def)
      then have "x # xs = [] @ sub @ v" by simp
      then show ?thesis by blast
    next
      case 2
      with Cons.IH obtain u v where "xs = u @ sub @ v" by blast
      then have "x # xs = (x # u) @ sub @ v" by simp
      then show ?thesis by blast
    qed
  next
    assume "\<exists>u v. x # xs = u @ sub @ v"
    then obtain u v where uv: "x # xs = u @ sub @ v" by blast
    show "str_contains sub (x # xs)"
    proof (cases u)
      case Nil
      with uv have "prefix sub (x # xs)" by (simp add: prefix_def)
      then show ?thesis by simp
    next
      case (Cons y u')
      with uv have "xs = u' @ sub @ v" by simp
      with Cons.IH have "str_contains sub xs" by blast
      then show ?thesis by simp
    qed
  qed
qed

lemma str_contains_subset: "str_contains sub s \<Longrightarrow> set sub \<subseteq> set s"
  by (auto simp: str_contains_iff)

lemma py_split_nonempty: "py_split sep s \<noteq> []"
  by (induction sep s rule: py_split.induct) (auto split: list.splits)

lemma py_split_char_unfold:
  "py_split [c] s =
     takeWhile (\<lambda>x. x \<noteq> c) s #
       (case dropWhile (\<lambda>x. x \<noteq> c) s of [] \<Rightarrow> [] | _ # rest \<Rightarrow> py_split [c] rest)"
proof (induction s)
  case Nil
  then show ?case by simp
next
  case (Cons x xs)
  then show ?case by (cases "x = c") (auto split: list.splits)
qed

lemma py_split_char_absent: "c \<notin> set a \<Longrightarrow> py_split [c] a = [a]"
  by (induction a) auto

lemma py_split_char_append:
  "c \<notin> set a \<Longrightarrow> py_split [c] (a @ c # rest) = a # py_split [c] rest"
  by (induction a) auto

lemma py_split_char_hd: "py_index (py_split [c] s) 0 = Inr (takeWhile (\<lambda>x. x \<noteq> c) s)"
  by (subst py_split_char_unfold) (simp add: py_index_def)

lemma py_split_char_length: "1 < length (py_split [c] s) \<longleftrightarrow> c \<in> set s"
proof (induction s)
  case Nil
  then show ?case by simp
next
  case (Cons x xs)
  show ?case
  proof (cases "x = c")
    case True
    then show ?thesis
      using py_split_nonempty [of "[c]" xs] by (cases "py_split [c] xs") auto
  next
    case False
    then show ?thesis using Cons by (auto split: list.splits)
  qed
qed

lemma py_split_char_cons:
  assumes "py_split [c] s = p # q # ps"
  shows "\<exists>rest. s = p @ c # rest \<and> c \<notin> set p \<and> py_split [c] rest = q # ps"
proof -
  from assms have p: "p = takeWhile (\<lambda>x. x \<noteq> c) s"
    by (subst (asm) py_split_char_unfold) simp
  from assms obtain y rest
    where d: "dropWhile (\<lambda>x. x \<noteq> c) s = y # rest" and r: "py_split [c] rest = q # ps"
    by (subst (asm) py_split_char_unfold) (auto split: list.splits)
  from d have "y = c" using hd_dropWhile [of "\<lambda>x. x \<noteq> c" s] by auto
  with d p have "s = p @ c # rest"
    using takeWhile_dropWhile_id [of "\<lambda>x. x \<noteq> c" s] by simp
  moreover from p have "c \<notin> set p" by (auto dest: set_takeWhileD)
  ultimately show ?thesis using r by blast
qed

lemma py_split_char_single:
  assumes "py_split [c] s = [p]"
  shows "s = p \<and> c \<notin> set p"
proof -
  have "\<not> 1 < length (py_split [c] s)" using assms by simp
  then have "c \<notin> set s" using py_split_char_length [of c s] by simp
  then show ?thesis using assms by (simp add: py_split_char_absent)
qed

section \<open>The matcher and the IPv4 pattern\<close>

text \<open>The backtracking matcher returns exactly the suffixes left by a match of a prefix.\<close>

lemma rmatch_lang: "set (rmatch r s) = {v. \<exists>u \<in> lang r. s = u @ v}"
proof (induction r arbitrary: s)
  case (Seq r1 r2)
  have "v \<in> set (rmatch (Seq r1 r2) s) \<longleftrightarrow> (\<exists>u \<in> lang (Seq r1 r2). s = u @ v)" for v
  proof
    assume "v \<in> set (rmatch (Seq r1 r2) s)"
    then obtain w where "w \<in> set (rmatch r1 s)" "v \<in> set (rmatch r2 w)" by auto
    then obtain u1 u2 where "u1 \<in> lang r1" "s = u1 @ w" "u2 \<in> lang r2" "w = u2 @ v"
      unfolding Seq by blast
    then have "u1 @ u2 \<in> lang (Seq r1 r2)" "s = (u1 @ u2) @ v" by auto
    then show "\<exists>u \<in> lang (Seq r1 r2). s = u @ v" by blast
  next
    assume "\<exists>u \<in> lang (Seq r1 r2). s = u @ v"
    then obtain u1 u2 where "u1 \<in> lang r1" "u2 \<in> lang r2" "s = u1 @ (u2 @ v)" by auto
    then have "u2 @ v \<in> set (rmatch r1 s)" "v \<in> set (rmatch r2 (u2 @ v))"
      unfolding Seq by blast+
    then show "v \<in> set (rmatch (Seq r1 r2) s)" by auto
  qed
  then show ?case by blast
qed (auto split: list.splits)

lemma lang_rmatch: "m \<in> lang r \<longleftrightarrow> [] \<in> set (rmatch r m)"
  by (simp add: rmatch_lang)

lemma seq_langI: "u \<in> lang r1 \<Longrightarrow> v \<in> lang r2 \<Longrightarrow> u @ v \<in> lang (Seq r1 r2)"
  by auto

lemma repeat_re_3: "repeat_re 3 r = Seq r (Seq r (Seq r Eps))"
  by (simp add: numeral_3_eq_3)

lemma octet_sound: "m \<in> lang octet_re \<Longrightarrow> is_octet m"
  by (auto simp: octet_re_def is_octet_def is_digit_def decimal_value_def)

lemma octet_one_digit: "is_digit x \<Longrightarrow> [x] \<in> lang octet_re"
  by (subst lang_rmatch) (simp add: octet_re_def is_digit_def)

lemma octet_two_digits: "is_digit x \<Longrightarrow> is_digit y \<Longrightarrow> [x, y] \<in> lang octet_re"
  by (subst lang_rmatch) (simp add: octet_re_def is_digit_def)

lemma octet_below_200:
  "x = CHR ''0'' \<or> x = CHR ''1'' \<Longrightarrow> is_digit y \<Longrightarrow> is_digit z \<Longrightarrow> [x, y, z] \<in> lang octet_re"
  by (subst lang_rmatch) (auto simp add: octet_re_def is_digit_def)

lemma octet_below_250:
  "(48::nat) \<le> of_char x \<Longrightarrow> (of_char x :: nat) \<le> 52 \<Longrightarrow> is_digit y \<Longrightarrow>
     [CHR ''2'', x, y] \<in> lang octet_re"
  by (subst lang_rmatch) (auto simp add: octet_re_def is_digit_def)

lemma octet_from_250:
  "(48::nat) \<le> of_char x \<Longrightarrow> (of_char x :: nat) \<le> 53 \<Longrightarrow>
     [CHR ''2'', CHR ''5'', x] \<in> lang octet_re"
  by (subst lang_rmatch) (auto simp add: octet_re_def is_digit_def)

lemma of_char_digit_codes:
  "(of_char x :: nat) = 48 \<longleftrightarrow> x = CHR ''0''"
  "(of_char x :: nat) = 49 \<longleftrightarrow> x = CHR ''1''"
  "(of_char x :: nat) = 50 \<longleftrightarrow> x = CHR ''2''"
  "(of_char x :: nat) = 53 \<longleftrightarrow> x = CHR ''5''"
  using of_char_eq_iff [of x "CHR ''0''", where ?'a = nat]
    of_char_eq_iff [of x "CHR ''1''", where ?'a = nat]
    of_char_eq_iff [of x "CHR ''2''", where ?'a = nat]
    of_char_eq_iff [of x "CHR ''5''", where ?'a = nat]
  by simp_all

lemma short_list_cases:
  assumes "m \<noteq> []" "length m \<le> 3"
  obtains x where "m = [x]" | x y where "m = [x, y]" | x y z where "m = [x, y, z]"
proof (cases m)
  case Nil
  with assms show ?thesis by simp
next
  case (Cons x m1)
  note c1 = this
  show ?thesis
  proof (cases m1)
    case Nil
    with c1 that show ?thesis by simp
  next
    case (Cons y m2)
    note c2 = this
    show ?thesis
    proof (cases m2)
      case Nil
      with c1 c2 that show ?thesis by simp
    next
      case (Cons z m3)
      with c1 c2 assms have "m3 = []" by simp
      with c1 c2 Cons that show ?thesis by simp
    qed
  qed
qed

lemma three_digit_bound:
  fixes a b c :: nat
  assumes "48 \<le> a" "a \<le> 57" "48 \<le> b" "b \<le> 57" "48 \<le> c" "c \<le> 57"
    and "100 * (a - 48) + 10 * (b - 48) + (c - 48) \<le> 255"
  shows "a = 48 \<or> a = 49 \<or> (a = 50 \<and> b \<le> 52) \<or> (a = 50 \<and> b = 53 \<and> c \<le> 53)"
  using assms by linarith

lemma octet_complete:
  assumes "is_octet m"
  shows "m \<in> lang octet_re"
proof -
  from assms have len: "m \<noteq> []" "length m \<le> 3" and dig: "list_all is_digit m"
    and val: "decimal_value m \<le> 255"
    by (simp_all add: is_octet_def)
  from len show ?thesis
  proof (cases rule: short_list_cases)
    case (1 x)
    with dig show ?thesis by (simp add: octet_one_digit)
  next
    case (2 x y)
    with dig show ?thesis by (simp add: octet_two_digits)
  next
    case (3 x y z)
    with dig have d: "is_digit x" "is_digit y" "is_digit z" by simp_all
    from 3 val
    have v: "100 * (of_char x - 48) + 10 * (of_char y - 48) + (of_char z - 48) \<le> (255::nat)"
      by (simp add: decimal_value_def)
    from d have r: "(48::nat) \<le> of_char x" "(of_char x::nat) \<le> 57"
        "(48::nat) \<le> of_char y" "(of_char y::nat) \<le> 57"
        "(48::nat) \<le> of_char z" "(of_char z::nat) \<le> 57"
      by (simp_all add: is_digit_def)
    from three_digit_bound [OF r v]
    consider "x = CHR ''0'' \<or> x = CHR ''1''"
      | "x = CHR ''2''" "(of_char y::nat) \<le> 52"
      | "x = CHR ''2''" "y = CHR ''5''" "(of_char z::nat) \<le> 53"
      by (auto simp: of_char_digit_codes)
    then show ?thesis
    proof cases
      case 1
      then show ?thesis using d 3 by (simp add: octet_below_200)
    next
      case 2
      then show ?thesis using r d 3 by (simp add: octet_below_250)
    next
      case 3
      then show ?thesis using r d \<open>m = [x, y, z]\<close> by (simp add: octet_from_250)
    qed
  qed
qed

lemma octet_lang: "m \<in> lang octet_re \<longleftrightarrow> is_octet m"
  using octet_sound octet_complete by blast

lemma is_octet_chars: "is_octet a \<Longrightarrow> c \<in> set a \<Longrightarrow> is_digit c"
  by (simp add: is_octet_def list_all_iff)

lemma is_octet_no_dot: "is_octet a \<Longrightarrow> CHR ''.'' \<notin> set a"
  by (auto dest: is_octet_chars simp: is_digit_def)

text \<open>The executable definition of \<open>valid_ipv4\<close> says what one expects of it.\<close>

lemma valid_ipv4_iff:
  "valid_ipv4 s \<longleftrightarrow>
     (\<exists>a b c d. s = a @ ''.'' @ b @ ''.'' @ c @ ''.'' @ d \<and>
        is_octet a \<and> is_octet b \<and> is_octet c \<and> is_octet d)"
proof
  assume "valid_ipv4 s"
  then obtain a b c d where sp: "py_split ''.'' s = [a, b, c, d]"
    and oct: "is_octet a" "is_octet b" "is_octet c" "is_octet d"
    by (auto simp: valid_ipv4_def split: list.splits)
  from py_split_char_cons [OF sp] obtain r1 where
    r1: "s = a @ CHR ''.'' # r1" "py_split ''.'' r1 = [b, c, d]" by blast
  from py_split_char_cons [OF r1(2)] obtain r2 where
    r2: "r1 = b @ CHR ''.'' # r2" "py_split ''.'' r2 = [c, d]" by blast
  from py_split_char_cons [OF r2(2)] obtain r3 where
    r3: "r2 = c @ CHR ''.'' # r3" "py_split ''.'' r3 = [d]" by blast
  from py_split_char_single [OF r3(2)] have "r3 = d" by simp
  with r1 r2 r3 have "s = a @ ''.'' @ b @ ''.'' @ c @ ''.'' @ d" by simp
  with oct show "\<exists>a b c d. s = a @ ''.'' @ b @ ''.'' @ c @ ''.'' @ d \<and>
        is_octet a \<and> is_octet b \<and> is_octet c \<and> is_octet d" by blast
next
  assume "\<exists>a b c d. s = a @ ''.'' @ b @ ''.'' @ c @ ''.'' @ d \<and>
        is_octet a \<and> is_octet b \<and> is_octet c \<and> is_octet d"
  then obtain a b c d where s: "s = a @ ''.'' @ b @ ''.'' @ c @ ''.'' @ d"
    and oct: "is_octet a" "is_octet b" "is_octet c" "is_octet d" by blast
  from oct have nd: "CHR ''.'' \<notin> set a" "CHR ''.'' \<notin> set b" "CHR ''.'' \<notin> set c"
      "CHR ''.'' \<notin> set d"
    by (simp_all add: is_octet_no_dot)
  have "py_split ''.'' s = [a, b, c, d]"
    unfolding s using nd by (simp add: py_split_char_append py_split_char_absent)
  with oct show "valid_ipv4 s" by (simp add: valid_ipv4_def)
qed

lemma valid_ipv4_chars:
  assumes "valid_ipv4 s" "x \<in> set s"
  shows "is_digit x \<or> x = CHR ''.''"
proof -
  from assms(1) obtain a b c d where s: "s = a @ ''.'' @ b @ ''.'' @ c @ ''.'' @ d"
    and oct: "is_octet a" "is_octet b" "is_octet c" "is_octet d"
    unfolding valid_ipv4_iff by blast
  from assms(2) s have "x \<in> set a \<or> x \<in> set b \<or> x \<in> set c \<or> x \<in> set d \<or> x = CHR ''.''"
    by auto
  with oct show ?thesis by (auto dest: is_octet_chars)
qed

lemma valid_ipv4_no_marker:
  assumes "valid_ipv4 s"
  shows "\<not> str_contains ''s3://'' s"
proof
  assume "str_contains ''s3://'' s"
  then have "CHR ''s'' \<in> set s" using str_contains_subset by fastforce
  with assms have "is_digit CHR ''s'' \<or> CHR ''s'' = CHR ''.''" by (rule valid_ipv4_chars)
  then show False by (simp add: is_digit_def)
qed

lemma ip_lang: "m \<in> lang ip_re \<longleftrightarrow> valid_ipv4 m"
proof
  assume "m \<in> lang ip_re"
  then obtain a b c d where "m = a @ ''.'' @ b @ ''.'' @ c @ ''.'' @ d"
    and "a \<in> lang octet_re" "b \<in> lang octet_re" "c \<in> lang octet_re" "d \<in> lang octet_re"
    unfolding ip_re_def repeat_re_3 by auto
  then show "valid_ipv4 m" unfolding valid_ipv4_iff octet_lang by blast
next
  assume "valid_ipv4 m"
  then obtain a b c d where m: "m = a @ ''.'' @ b @ ''.'' @ c @ ''.'' @ d"
    and oct: "is_octet a" "is_octet b" "is_octet c" "is_octet d"
    unfolding valid_ipv4_iff by blast
  have od: "x @ ''.'' \<in> lang (Seq octet_re (Lit CHR ''.''))" if "is_octet x" for x
    using that by (intro seq_langI) (simp_all add: octet_lang)
  have "(a @ ''.'') @ (b @ ''.'') @ (c @ ''.'') @ []
          \<in> lang (repeat_re 3 (Seq octet_re (Lit CHR ''.'')))"
    unfolding repeat_re_3 using oct by (intro seq_langI od) simp_all
  moreover from oct have "d \<in> lang octet_re" by (simp add: octet_lang)
  ultimately have "((a @ ''.'') @ (b @ ''.'') @ (c @ ''.'') @ []) @ d \<in> lang ip_re"
    unfolding ip_re_def by (rule seq_langI)
  with m show "m \<in> lang ip_re" by simp
qed

text \<open>
  What the anchored search accepts: a valid address, or a valid address followed by one
  newline (the \<^verbatim>\<open>$\<close> of the pattern matches before a final newline).
\<close>

lemma re_search_ip:
  "re_search_anchored ip_re s \<longleftrightarrow>
     valid_ipv4 s \<or> (\<exists>ip. s = ip @ [CHR 0x0A] \<and> valid_ipv4 ip)"
proof -
  have "re_search_anchored ip_re s \<longleftrightarrow>
      [] \<in> set (rmatch ip_re s) \<or> [CHR 0x0A] \<in> set (rmatch ip_re s)"
    by (auto simp: re_search_anchored_def list_ex_iff)
  also have "\<dots> \<longleftrightarrow> s \<in> lang ip_re \<or> (\<exists>ip \<in> lang ip_re. s = ip @ [CHR 0x0A])"
    by (simp add: rmatch_lang)
  finally show ?thesis by (auto simp: ip_lang)
qed

section \<open>Location classification\<close>

text \<open>
  The classifier, case by case, in the vocabulary of the specification. It accepts a root
  as soon as a \<^verbatim>\<open>/\<close> follows it, whether or not a share root follows the \<^verbatim>\<open>/\<close>.
\<close>

lemma identify_location_type_cases:
  "identify_location_type s =
     (if str_contains ''s3://'' s then Inr S3
      else if (valid_ipv4 (first_segment s) \<or>
               (\<exists>ip. first_segment s = ip @ [CHR 0x0A] \<and> valid_ipv4 ip)) \<and>
              \<not> is_bare_root s
      then Inr OnPrem
      else Inl Exception)"
proof -
  have root: "py_index (py_split ''/'' s) 0 = Inr (first_segment s)"
    by (simp add: py_split_char_hd first_segment_def)
  have sub: "py_index (py_split ''/'' s) 1 =
      (if is_bare_root s then Inl IndexError else Inr (py_split ''/'' s ! 1))"
    using py_split_char_length [of "CHR ''/''" s]
    by (simp add: py_index_def is_bare_root_def)
  show ?thesis
    unfolding identify_location_type_def root sub
    by (auto simp: re_search_ip)
qed

lemma further_segment_not_bare: "has_further_segment s \<Longrightarrow> \<not> is_bare_root s"
proof
  assume further: "has_further_segment s" and "is_bare_root s"
  then have "dropWhile (\<lambda>c. c \<noteq> CHR ''/'') s = []"
    by (auto simp: is_bare_root_def dropWhile_eq_Nil_conv)
  with further show False
    by (simp add: has_further_segment_def share_root_def)
qed

lemmas io_defs = bind_def ret_def raise_def lift_def dict_get_def perform_def try_except_def

lemmas ipv4_eval =
  valid_ipv4_def first_segment_def share_root_def has_further_segment_def is_bare_root_def
  is_octet_def is_digit_def decimal_value_def

lemmas identify_eval =
  identify_location_type_def re_search_anchored_def ip_re_def octet_re_def py_index_def
  numeral_3_eq_3

text \<open>
  Claim C1, as amended. When the first segment of a location is a valid dotted-decimal
  IPv4 address: with a non-empty share root after it the classifier returns \<open>OnPrem\<close>,
  unless the location contains the marker \<^verbatim>\<open>s3://\<close>, which is tested first and gives
  \<open>S3\<close>; with no \<^verbatim>\<open>/\<close> at all the classifier raises its exception. Nothing is said of
  a root followed by \<^verbatim>\<open>/\<close> and an empty share root.
\<close>

theorem identify_ipv4_root:
  assumes "valid_ipv4 (first_segment s)"
  shows "(has_further_segment s \<longrightarrow>
            identify_location_type s =
              (if str_contains ''s3://'' s then Inr S3 else Inr OnPrem)) \<and>
         (is_bare_root s \<longrightarrow> identify_location_type s = Inl Exception)"
proof (intro conjI impI)
  assume "has_further_segment s"
  then have "\<not> is_bare_root s" by (rule further_segment_not_bare)
  with assms show "identify_location_type s =
      (if str_contains ''s3://'' s then Inr S3 else Inr OnPrem)"
    by (simp add: identify_location_type_cases)
next
  assume bare: "is_bare_root s"
  then have "first_segment s = s"
    by (auto simp: is_bare_root_def first_segment_def takeWhile_eq_all_conv)
  with assms have "\<not> str_contains ''s3://'' s" by (simp add: valid_ipv4_no_marker)
  with bare show "identify_location_type s = Inl Exception"
    by (simp add: identify_location_type_cases)
qed

text \<open>
  Claim C1, witness: the two scenarios of the specification, an address with a share and
  a file, and a bare address.
\<close>

theorem identify_ipv4_root_witness:
  "valid_ipv4 (first_segment ''10.21.13.12/Matillion_Output/hello.csv'') \<and>
   has_further_segment ''10.21.13.12/Matillion_Output/hello.csv'' \<and>
   identify_location_type ''10.21.13.12/Matillion_Output/hello.csv'' = Inr OnPrem \<and>
   valid_ipv4 (first_segment ''10.21.13.12'') \<and>
   is_bare_root ''10.21.13.12'' \<and>
   identify_location_type ''10.21.13.12'' = Inl Exception"
proof -
  have a: "valid_ipv4 (first_segment ''10.21.13.12/Matillion_Output/hello.csv'')"
    by (simp add: ipv4_eval)
  have a': "has_further_segment ''10.21.13.12/Matillion_Output/hello.csv''"
    by (simp add: ipv4_eval)
  have b: "valid_ipv4 (first_segment ''10.21.13.12'')"
    by (simp add: ipv4_eval)
  have b': "is_bare_root ''10.21.13.12''"
    by (simp add: ipv4_eval)
  show ?thesis
    using a a' b b' identify_ipv4_root [OF a] identify_ipv4_root [OF b]
    by simp
qed

text \<open>
  Claim C1, counterexample to the claim as stated: the first segment is a valid address
  and a share root follows, yet the classifier returns \<open>S3\<close>, because the rest of the
  location contains the marker.
\<close>

theorem identify_ipv4_root_with_marker:
  "valid_ipv4 (first_segment ''10.21.13.12/s3://bucket-test'') \<and>
   has_further_segment ''10.21.13.12/s3://bucket-test'' \<and>
   identify_location_type ''10.21.13.12/s3://bucket-test'' = Inr S3"
  by (simp add: ipv4_eval identify_location_type_def)

text \<open>
  Claim C2. Every location that contains the marker \<^verbatim>\<open>s3://\<close> anywhere, whatever comes
  before and after it, is classified as \<open>S3\<close>.
\<close>

theorem identify_marker_anywhere: "identify_location_type (u @ ''s3://'' @ v) = Inr S3"
proof -
  have "str_contains ''s3://'' (u @ ''s3://'' @ v)"
    unfolding str_contains_iff by blast
  then show ?thesis by (simp add: identify_location_type_def)
qed

text \<open>
  Claim C3 fails on the code at a location whose first segment is a valid address followed
  by a newline character: the location has no marker and its first segment is not a valid
  IPv4 address, yet the classifier returns \<open>OnPrem\<close> instead of raising.
\<close>

theorem identify_newline_root:
  "\<not> str_contains ''s3://'' ''10.21.13.12\<newline>/share'' \<and>
   \<not> valid_ipv4 (first_segment ''10.21.13.12\<newline>/share'') \<and>
   has_further_segment ''10.21.13.12\<newline>/share'' \<and>
   identify_location_type ''10.21.13.12\<newline>/share'' = Inr OnPrem"
  by (simp add: ipv4_eval identify_eval)

text \<open>
  The classifier also accepts a valid address followed by \<^verbatim>\<open>/\<close> and nothing: the piece
  read after the root exists but is empty, and the source does not look at it.
\<close>

lemma identify_empty_share:
  "\<not> has_further_segment ''10.21.13.12/'' \<and>
   identify_location_type ''10.21.13.12/'' = Inr OnPrem"
  by (simp add: ipv4_eval identify_eval)

lemma identify_main_source: "identify_location_type ''s3://bucket-test'' = Inr S3"
  by (simp add: identify_location_type_def)

lemma identify_main_target:
  "identify_location_type ''10.10.10.100/Matillion_Output'' = Inr OnPrem"
  by (simp add: identify_eval)


lemma identify_on_prem_file:
  "identify_location_type ''10.21.13.12/Matillion_Output/hello.csv'' = Inr OnPrem"
  by (simp add: identify_eval)

section \<open>The on-premises-to-store executor\<close>

lemma py_split_max_example:
  "py_split_max ''/'' 2 ''10.21.13.12/Matillion_Output/hello.csv'' =
     [''10.21.13.12'', ''Matillion_Output'', ''hello.csv'']"
  by (simp add: numeral_2_eq_2)

lemmas on_prem_to_s3_eval =
  move_on_prem_to_s3_def decrypt_KMS_credentials_def retrieval_fails_world_def
  upload_fails_world_def working_world_def configured_environ_def py_split_max_example
  py_index_def py_last_def io_defs

text \<open>
  The value returned by \<^verbatim>\<open>_move_on_prem_to_s3\<close> does not depend on how the retrieval and
  the upload end: both \<^verbatim>\<open>except\<close> branches only log.
\<close>

lemma move_on_prem_to_s3_ignores_transfer_outcome:
  "fst (move_on_prem_to_s3 (w\<lparr>smb_retrieveFile := r, s3_upload_fileobj := u\<rparr>) env s t) =
   fst (move_on_prem_to_s3 w env s t)"
  by (simp add: move_on_prem_to_s3_def decrypt_KMS_credentials_def io_defs
      split: prod.splits sum.splits option.splits if_splits)

text \<open>
  Claim C7 fails on the code. The SMB connection succeeds; in the first run the retrieval
  raises, in the second the upload raises. Both runs return \<^verbatim>\<open>True\<close>, the value the
  docstring reserves for success; in the first, the empty buffer is uploaded all the same.
\<close>

theorem move_on_prem_to_s3_reports_success:
  "move_on_prem_to_s3 retrieval_fails_world configured_environ
       ''10.21.13.12/Matillion_Output/hello.csv'' ''s3://bucket-test'' =
     (Inr PyTrue,
      [KMS_decrypt username_blob, KMS_decrypt password_blob, S3_client,
       SMB_connect ''svc_transfer'' ''hunter2'' ''10.21.13.12'' 445,
       SMB_retrieveFile ''Matillion_Output'' ''hello.csv'',
       S3_upload_fileobj '''' ''bucket-test'' ''hello.csv'']) \<and>
   move_on_prem_to_s3 upload_fails_world configured_environ
       ''10.21.13.12/Matillion_Output/hello.csv'' ''s3://bucket-test'' =
     (Inr PyTrue,
      [KMS_decrypt username_blob, KMS_decrypt password_blob, S3_client,
       SMB_connect ''svc_transfer'' ''hunter2'' ''10.21.13.12'' 445,
       SMB_retrieveFile ''Matillion_Output'' ''hello.csv'',
       S3_upload_fileobj ''a,b\<newline>1,2\<newline>'' ''bucket-test'' ''hello.csv''])"
  by (simp add: on_prem_to_s3_eval) (simp add: username_blob_def password_blob_def)

section \<open>Strategy selection and \<^verbatim>\<open>move_files\<close>\<close>



text \<open>
  Claim C10. When the target is on-premises (the source being a store or on-premises),
  \<^verbatim>\<open>move_files\<close> returns \<^verbatim>\<open>None\<close> without raising and without a single external call:
  no transfer takes place. The two executors concerned return the class \<^verbatim>\<open>Exception\<close>
  as a value. Whatever the locations, a run of \<^verbatim>\<open>move_files\<close> that returns returns
  \<^verbatim>\<open>None\<close>: the value of the executor is dropped.
\<close>

theorem move_files_stub_executors:
  assumes "identify_location_type source_location = Inr source_type"
    and "identify_location_type target_location = Inr OnPrem"
  shows "move_files w env source_location target_location = (Inr PyNone, []) \<and>
    move_s3_to_on_prem source_location target_location = (Inr PyExceptionClass, []) \<and>
    move_on_prem_to_on_prem source_location target_location = (Inr PyExceptionClass, []) \<and>
    (case fst (move_files w' env' s t) of Inl e \<Rightarrow> True | Inr v \<Rightarrow> v = PyNone)"
proof -
  have stubs: "move_files w env source_location target_location = (Inr PyNone, [])"
    using assms
    by (cases source_type)
      (simp_all add: move_files_def move_s3_to_on_prem_def move_on_prem_to_on_prem_def
        io_defs)
  have dropped: "(case fst (move_files w' env' s t) of Inl e \<Rightarrow> True | Inr v \<Rightarrow> v = PyNone)"
    by (simp add: move_files_def io_defs split: sum.splits prod.splits)
  from stubs dropped show ?thesis
    by (simp add: move_s3_to_on_prem_def move_on_prem_to_on_prem_def ret_def)
qed

text \<open>
  Claim C10, witness: a store-to-on-premises pair and an on-premises-to-on-premises pair.
\<close>

theorem move_files_stub_executors_witness:
  "move_files working_world configured_environ ''s3://bucket-test''
     ''10.10.10.100/Matillion_Output'' = (Inr PyNone, []) \<and>
   move_files working_world configured_environ ''10.21.13.12/Matillion_Output/hello.csv''
     ''10.10.10.100/Matillion_Output'' = (Inr PyNone, [])"
  using move_files_stub_executors [OF identify_main_source identify_main_target]
    move_files_stub_executors [OF identify_on_prem_file identify_main_target]
  by simp

section \<open>The bootstrap script and the dispatcher\<close>

text \<open>
  The name \<^verbatim>\<open>decrypt_KMS_credentials\<close> is not bound in \<^verbatim>\<open>handler.py\<close>: the first
  statement of \<^verbatim>\<open>create_s3_onprem_bootstrap_script\<close> raises \<^verbatim>\<open>NameError\<close> before anything
  else happens, and \<^verbatim>\<open>create_EC2\<close>, which starts by calling it, raises with it.
\<close>

lemma bootstrap_script_name_error:
  "create_s3_onprem_bootstrap_script env source_location target_location python_handler =
     (Inl (NameError ''decrypt_KMS_credentials''), [])"
  by (simp add: create_s3_onprem_bootstrap_script_def load_global_def handler_globals_def
      io_defs)

lemma create_EC2_name_error:
  "create_EC2 w env source_location target_location python_handler =
     (Inl (NameError ''decrypt_KMS_credentials''), [])"
  by (simp add: create_EC2_def create_EC2_with_def bootstrap_script_name_error bind_def)

text \<open>
  The template itself does not determine the handler name: the handler and the source are
  separated by the text \<^verbatim>\<open> --source \<close> only, so two different pairs give the same script.
\<close>

lemma bash_bootstrap_script_ambiguous:
  "bash_bootstrap_script username password ''bucket --source other'' target_location
     ''main.py'' =
   bash_bootstrap_script username password ''other'' target_location
     ''main.py --source bucket''"
  by (simp add: bash_bootstrap_script_def)

text \<open>
  Claim C8 fails on the code: for every environment, source, target and handler name the
  generation raises \<^verbatim>\<open>NameError\<close>, so there is no script to parse the target and the
  handler name back from.
\<close>

theorem bootstrap_script_never_generated:
  "fst (create_s3_onprem_bootstrap_script env source_location target_location python_handler)
     = Inl (NameError ''decrypt_KMS_credentials'') \<and>
   (\<forall>script.
      fst (create_s3_onprem_bootstrap_script env source_location target_location
             python_handler) \<noteq> Inr script)"
  by (simp add: bootstrap_script_name_error)

text \<open>
  Claim C9 fails on the code: with both ciphertexts in the environment and a decryption
  that would give the two plaintexts, the script generation and \<^verbatim>\<open>create_EC2\<close> raise
  \<^verbatim>\<open>NameError\<close> without one call to the decryption service: no plaintext is ever
  obtained or substituted.
\<close>

theorem bootstrap_script_credentials_not_decrypted:
  "configured_environ ''AD_username'' = Some ''AQICAHh1c2Vy'' \<and>
   configured_environ ''AD_key'' = Some ''AQICAHhrZXk='' \<and>
   decrypt_KMS_credentials working_world ''AQICAHh1c2Vy'' ''AQICAHhrZXk='' =
     (Inr (''svc_transfer'', ''hunter2''),
      [KMS_decrypt username_blob, KMS_decrypt password_blob]) \<and>
   create_s3_onprem_bootstrap_script configured_environ ''s3://bucket-test''
       ''10.10.10.100/Matillion_Output'' ''file_transfer.py'' =
     (Inl (NameError ''decrypt_KMS_credentials''), []) \<and>
   create_EC2 working_world configured_environ ''s3://bucket-test''
       ''10.10.10.100/Matillion_Output'' ''file_transfer.py'' =
     (Inl (NameError ''decrypt_KMS_credentials''), [])"
  by (simp add: bootstrap_script_name_error create_EC2_name_error configured_environ_def
      working_world_def decrypt_KMS_credentials_def io_defs)
    (simp add: username_blob_def password_blob_def)

text \<open>
  Claim C5 fails on the code at the event of the \<^verbatim>\<open>__main__\<close> block of \<^verbatim>\<open>handler.py\<close>
  (a store source, an on-premises target), with every variable configured and every
  collaborator working: the dispatcher raises \<^verbatim>\<open>NameError\<close>; no instance is requested
  and no response is returned.
\<close>

theorem lambda_handler_main_event:
  "lambda_handler working_world configured_environ main_event =
     (Inl (NameError ''decrypt_KMS_credentials''), [])"
  by (simp add: lambda_handler_def lambda_handler_with_def main_event_def
      configured_environ_def identify_main_target identify_main_source create_EC2_name_error
      io_defs)





end
